theory Spec2Isabelle
  imports Complex_Main "HOL-Library.Monad_Syntax"
begin

section \<open>The advertising simulator: data model\<close>

text \<open>
  The embedded code is \<^verbatim>\<open>src/components/AdSimulator.tsx\<close>: the function
  \<^verbatim>\<open>calculate\<close> (the single-period figures) and the function
  \<^verbatim>\<open>calculateCompoundEffect\<close> (the month-by-month projection with reinvestment).

  The code is embedded twice. In the first embedding a TypeScript \<^verbatim>\<open>number\<close> is a
  \<^typ>\<open>real\<close> and arithmetic is exact. It serves the properties that copy or compare
  values, count rows, or restate an expression as the code writes it; none of their
  proofs uses a law of the reals that binary64 arithmetic lacks. The one place where a
  non-finite value could arise from finite operands is a division whose denominator is
  zero; such a division is a branch of the model (\<open>divide_num\<close> below returns \<open>None\<close>).

  The second embedding, of the projection loop only, passes the result of every
  arithmetic operation through a rounding function. With \<open>round64\<close>, rounding to the
  nearest binary64 value, it computes what the program computes on doubles; with the
  identity it is the first embedding again. Properties that rest on distributivity or
  associativity are stated there, where exact and rounded arithmetic can be told apart.

  The loop counter \<^verbatim>\<open>month\<close> starts at 0 and is only incremented, so it is a
  \<^typ>\<open>nat\<close>.
\<close>

record InputValues =
  adCost :: real
  productPrice :: real
  roas :: real
  conversionRate :: real
  profitMargin :: real
  affiliateCommission :: real
  seatCpa :: real
  appointments :: real
  operationDays :: real
  months :: real
  firstMonthFree :: bool

record ResultValues =
  revenue :: real
  profit :: real
  profitBeforeAdCost :: real
  numberOfSales :: real
  cpa :: real
  roasActual :: real
  seatCount :: real
  dailyCost :: real
  affiliateAmount :: real
  profitAmount :: real

text \<open>
  The rows of the projection (\<^verbatim>\<open>CompoundDataItem\<close>). The fields \<^verbatim>\<open>adCost\<close>,
  \<^verbatim>\<open>revenue\<close> and \<^verbatim>\<open>profit\<close> carry the prefix \<open>item_\<close>, since the two records
  above already use these names.
\<close>

record CompoundDataItem =
  month :: nat
  item_adCost :: real
  item_revenue :: real
  item_profit :: real
  cumulativeAdCost :: real
  cumulativeRevenue :: real
  cumulativeProfit :: real

section \<open>The projection loop of \<^verbatim>\<open>calculateCompoundEffect\<close>\<close>

text \<open>
  The local variables of \<^verbatim>\<open>calculateCompoundEffect\<close>: the array \<^verbatim>\<open>data\<close> and the
  four accumulators declared with \<^verbatim>\<open>let\<close> (the three cumulative ones are abbreviated,
  their full names being fields of the rows).
\<close>

record LoopVars =
  data :: "CompoundDataItem list"
  cumAdCost :: real
  cumRevenue :: real
  cumProfit :: real
  currentAdCost :: real

text \<open>
  One pass through the body of the \<^verbatim>\<open>for\<close> loop, at the counter value \<open>m\<close>. The
  first branch is \<^verbatim>\<open>if (month === 0) { data.push(...); continue; }\<close>; the second
  is the rest of the body, in the order of the source.
\<close>

definition loop_body :: "InputValues \<Rightarrow> nat \<Rightarrow> LoopVars \<Rightarrow> LoopVars" where
  "loop_body inputs m s =
     (if m = 0 then
        s\<lparr>data := data s @
            [\<lparr>month = m, item_adCost = currentAdCost s, item_revenue = 0, item_profit = 0,
              cumulativeAdCost = cumAdCost s, cumulativeRevenue = 0, cumulativeProfit = 0\<rparr>]\<rparr>
      else
        let monthlyRevenue = currentAdCost s * roas inputs / 100;
            profitAmount' = monthlyRevenue * (profitMargin inputs / 100);
            affiliateAmount' = profitAmount' * (affiliateCommission inputs / 100);
            monthlyProfitBeforeAdCost = profitAmount' - affiliateAmount';
            netProfit = (if m = 1 \<and> firstMonthFree inputs
                         then monthlyProfitBeforeAdCost
                         else monthlyProfitBeforeAdCost - currentAdCost s);
            cumAdCost' = (if \<not> (m = 1 \<and> firstMonthFree inputs)
                          then cumAdCost s + currentAdCost s else cumAdCost s);
            cumRevenue' = cumRevenue s + monthlyRevenue;
            cumProfit' = cumProfit s + netProfit
        in \<lparr>data = data s @
               [\<lparr>month = m, item_adCost = currentAdCost s, item_revenue = monthlyRevenue,
                 item_profit = monthlyProfitBeforeAdCost,
                 cumulativeAdCost = cumAdCost', cumulativeRevenue = cumRevenue',
                 cumulativeProfit = cumProfit'\<rparr>],
             cumAdCost = cumAdCost',
             cumRevenue = cumRevenue',
             cumProfit = cumProfit',
             currentAdCost = (if monthlyProfitBeforeAdCost > 0
                              then monthlyProfitBeforeAdCost else adCost inputs)\<rparr>)"

text \<open>
  The loop \<^verbatim>\<open>for (let month = 0; month <= inputs.months; month++)\<close>. The bound is a
  \<^verbatim>\<open>number\<close>, hence a real here: it may be negative or fractional.
\<close>

function for_loop :: "InputValues \<Rightarrow> nat \<Rightarrow> LoopVars \<Rightarrow> LoopVars" where
  "for_loop inputs m s =
     (if real m \<le> months inputs then for_loop inputs (Suc m) (loop_body inputs m s) else s)"
  by pat_completeness auto
termination
proof (relation "measure (\<lambda>(inputs, m, s). nat (\<lfloor>months inputs\<rfloor> + 1) - m)")
  show "wf (measure (\<lambda>(inputs, m, s). nat (\<lfloor>months inputs\<rfloor> + 1) - m))"
    by simp
next
  fix inputs :: InputValues and m :: nat and s :: LoopVars
  assume "real m \<le> months inputs"
  then have "int m \<le> \<lfloor>months inputs\<rfloor>"
    by (simp add: le_floor_iff)
  then show "((inputs, Suc m, loop_body inputs m s), (inputs, m, s))
               \<in> measure (\<lambda>(inputs, m, s). nat (\<lfloor>months inputs\<rfloor> + 1) - m)"
    by simp
qed

declare for_loop.simps [simp del]

text \<open>
  \<^verbatim>\<open>calculateCompoundEffect(monthlyProfit)\<close>: the accumulators start at 0, the
  current ad cost at \<^verbatim>\<open>inputs.adCost\<close>, and the array built by the loop is what
  \<^verbatim>\<open>setCompoundData\<close> receives. The parameter \<^verbatim>\<open>monthlyProfit\<close> is not read by
  the body; \<^verbatim>\<open>inputs\<close> is the component state the closure reads.
\<close>

definition calculateCompoundEffect :: "InputValues \<Rightarrow> real \<Rightarrow> CompoundDataItem list" where
  "calculateCompoundEffect inputs monthlyProfit =
     data (for_loop inputs 0
       \<lparr>data = [], cumAdCost = 0, cumRevenue = 0, cumProfit = 0,
        currentAdCost = adCost inputs\<rparr>)"

section \<open>The single-period figures of \<^verbatim>\<open>calculate\<close>\<close>

text \<open>
  A quotient of two numbers. For a zero denominator JavaScript yields Infinity or NaN,
  which no real stands for: that outcome is \<open>None\<close>.
\<close>

definition divide_num :: "real \<Rightarrow> real \<Rightarrow> real option" where
  "divide_num a b = (if b = 0 then None else Some (a / b))"

text \<open>
  \<^verbatim>\<open>calculate\<close>: the ten figures in the order of the source, then the two state
  updates \<^verbatim>\<open>setResults\<close> and (through \<^verbatim>\<open>calculateCompoundEffect(profit)\<close>)
  \<^verbatim>\<open>setCompoundData\<close>, returned as a pair. Divisions by the literal 100 are written
  with \<open>/\<close>; the five divisions by a value that depends on the inputs go through
  \<open>divide_num\<close>, each under the guard the source puts before it.
\<close>

definition calculate :: "InputValues \<Rightarrow> (ResultValues \<times> CompoundDataItem list) option" where
  "calculate inputs = do {
     let revenue' = adCost inputs * roas inputs / 100;
     numberOfSales' \<leftarrow> (if productPrice inputs > 0
                        then divide_num revenue' (productPrice inputs) else Some 0);
     cpa' \<leftarrow> (if numberOfSales' > 0 then divide_num (adCost inputs) numberOfSales' else Some 0);
     let profitAmount' = revenue' * profitMargin inputs / 100;
     let affiliateAmount' = profitAmount' * affiliateCommission inputs / 100;
     let profitBeforeAdCost' = profitAmount' - affiliateAmount';
     let profit' = (if firstMonthFree inputs
                    then profitBeforeAdCost'
                    else profitBeforeAdCost' - adCost inputs);
     roasActual' \<leftarrow> (if adCost inputs > 0
                     then do { q \<leftarrow> divide_num revenue' (adCost inputs); Some (q * 100) }
                     else Some 0);
     seatCount' \<leftarrow> (if seatCpa inputs > 0
                    then divide_num (adCost inputs) (seatCpa inputs) else Some 0);
     dailyCost' \<leftarrow> (if operationDays inputs > 0
                    then divide_num (adCost inputs) (operationDays inputs) else Some 0);
     Some (\<lparr>revenue = revenue', profit = profit', profitBeforeAdCost = profitBeforeAdCost',
            numberOfSales = numberOfSales', cpa = cpa', roasActual = roasActual',
            seatCount = seatCount', dailyCost = dailyCost',
            affiliateAmount = affiliateAmount', profitAmount = profitAmount'\<rparr>,
           calculateCompoundEffect inputs profit')
   }"

text \<open>
  The inputs the component starts with (\<^verbatim>\<open>useState<InputValues>({...})\<close>).
\<close>

definition initial_inputs :: InputValues where
  "initial_inputs =
     \<lparr>adCost = 500000, productPrice = 600000, roas = 300, conversionRate = 20,
      profitMargin = 60, affiliateCommission = 20, seatCpa = 60000, appointments = 8,
      operationDays = 30, months = 12, firstMonthFree = True\<rparr>"

section \<open>The projection loop with rounded arithmetic\<close>

text \<open>
  The largest \<open>k\<close> with \<open>2 ^ k \<le> n\<close>, for \<open>n > 0\<close> (\<open>floor_log2_bounds\<close> below).
\<close>

fun floor_log2 :: "nat \<Rightarrow> nat" where
  "floor_log2 n = (if n < 2 then 0 else Suc (floor_log2 (n div 2)))"

declare floor_log2.simps [simp del]

text \<open>
  The binary exponent of a non-zero real: the \<open>e\<close> with \<open>2 ^ e \<le> \<bar>x\<bar> < 2 ^ (e + 1)\<close>
  (\<open>exponent_bounds\<close> below).
\<close>

definition exponent :: "real \<Rightarrow> int" where
  "exponent x =
     (if 1 \<le> \<bar>x\<bar> then int (floor_log2 (nat \<lfloor>\<bar>x\<bar>\<rfloor>))
      else - int (Suc (floor_log2 (nat \<lceil>1 / \<bar>x\<bar>\<rceil> - 1))))"

text \<open>
  Rounding to the nearest integer, a tie going to the even one.
\<close>

definition round_half_even :: "real \<Rightarrow> int" where
  "round_half_even x =
     (let n = \<lfloor>x\<rfloor>; f = x - of_int n
      in if f < 1 / 2 then n else if 1 / 2 < f then n + 1 else if even n then n else n + 1)"

text \<open>
  \<open>scale2 x k\<close> is \<open>x * 2 ^ k\<close> for an integer \<open>k\<close> (\<open>scale2_powi\<close> below).
\<close>

definition scale2 :: "real \<Rightarrow> int \<Rightarrow> real" where
  "scale2 x k = (if 0 \<le> k then x * 2 ^ nat k else x / 2 ^ nat (- k))"

text \<open>
  Rounding to binary64, as every arithmetic operation of the program does with its
  exact result: the significand has 53 bits, so a value with exponent \<open>e\<close> is rounded
  to a multiple of \<open>2 ^ (e - 52)\<close>, ties to even; below \<open>2 ^ (- 1022)\<close> the step stays
  \<open>2 ^ (- 1074)\<close> (gradual underflow). The exponent has no upper bound here: a result
  beyond the largest finite double, which the program replaces by Infinity, remains a
  real. NaN, the infinities and the sign of zero are outside the model.
\<close>

definition round64 :: "real \<Rightarrow> real" where
  "round64 x =
     (if x = 0 then 0
      else let k = max (exponent x) (- 1022) - 52
           in scale2 (of_int (round_half_even (scale2 x (- k)))) k)"

text \<open>
  The body of the loop once more, with the rounding \<open>rnd\<close> applied to the result of
  every multiplication, division, subtraction and addition, in the order in which
  the source evaluates them: \<^verbatim>\<open>currentAdCost * inputs.roas / 100\<close> multiplies, then
  divides; \<^verbatim>\<open>monthlyRevenue * (inputs.profitMargin / 100)\<close> divides, then multiplies.
\<close>

definition loop_body_fl :: "(real \<Rightarrow> real) \<Rightarrow> InputValues \<Rightarrow> nat \<Rightarrow> LoopVars \<Rightarrow> LoopVars" where
  "loop_body_fl rnd inputs m s =
     (if m = 0 then
        s\<lparr>data := data s @
            [\<lparr>month = m, item_adCost = currentAdCost s, item_revenue = 0, item_profit = 0,
              cumulativeAdCost = cumAdCost s, cumulativeRevenue = 0, cumulativeProfit = 0\<rparr>]\<rparr>
      else
        let monthlyRevenue = rnd (rnd (currentAdCost s * roas inputs) / 100);
            profitAmount' = rnd (monthlyRevenue * rnd (profitMargin inputs / 100));
            affiliateAmount' = rnd (profitAmount' * rnd (affiliateCommission inputs / 100));
            monthlyProfitBeforeAdCost = rnd (profitAmount' - affiliateAmount');
            netProfit = (if m = 1 \<and> firstMonthFree inputs
                         then monthlyProfitBeforeAdCost
                         else rnd (monthlyProfitBeforeAdCost - currentAdCost s));
            cumAdCost' = (if \<not> (m = 1 \<and> firstMonthFree inputs)
                          then rnd (cumAdCost s + currentAdCost s) else cumAdCost s);
            cumRevenue' = rnd (cumRevenue s + monthlyRevenue);
            cumProfit' = rnd (cumProfit s + netProfit)
        in \<lparr>data = data s @
               [\<lparr>month = m, item_adCost = currentAdCost s, item_revenue = monthlyRevenue,
                 item_profit = monthlyProfitBeforeAdCost,
                 cumulativeAdCost = cumAdCost', cumulativeRevenue = cumRevenue',
                 cumulativeProfit = cumProfit'\<rparr>],
             cumAdCost = cumAdCost',
             cumRevenue = cumRevenue',
             cumProfit = cumProfit',
             currentAdCost = (if monthlyProfitBeforeAdCost > 0
                              then monthlyProfitBeforeAdCost else adCost inputs)\<rparr>)"

text \<open>
  The loop and \<^verbatim>\<open>calculateCompoundEffect\<close> under the rounding \<open>rnd\<close>.
\<close>

function for_loop_fl :: "(real \<Rightarrow> real) \<Rightarrow> InputValues \<Rightarrow> nat \<Rightarrow> LoopVars \<Rightarrow> LoopVars" where
  "for_loop_fl rnd inputs m s =
     (if real m \<le> months inputs
      then for_loop_fl rnd inputs (Suc m) (loop_body_fl rnd inputs m s) else s)"
  by pat_completeness auto
termination
proof (relation "measure (\<lambda>(rnd, inputs, m, s). nat (\<lfloor>months inputs\<rfloor> + 1) - m)")
  show "wf (measure (\<lambda>(rnd :: real \<Rightarrow> real, inputs, m :: nat, s :: LoopVars).
              nat (\<lfloor>months inputs\<rfloor> + 1) - m))"
    by simp
next
  fix rnd :: "real \<Rightarrow> real" and inputs :: InputValues and m :: nat and s :: LoopVars
  assume "real m \<le> months inputs"
  then have "int m \<le> \<lfloor>months inputs\<rfloor>"
    by (simp add: le_floor_iff)
  then show "((rnd, inputs, Suc m, loop_body_fl rnd inputs m s), (rnd, inputs, m, s))
               \<in> measure (\<lambda>(rnd, inputs, m, s). nat (\<lfloor>months inputs\<rfloor> + 1) - m)"
    by simp
qed

declare for_loop_fl.simps [simp del]

definition calculateCompoundEffect_fl :: "(real \<Rightarrow> real) \<Rightarrow> InputValues \<Rightarrow> CompoundDataItem list" where
  "calculateCompoundEffect_fl rnd inputs =
     data (for_loop_fl rnd inputs 0
       \<lparr>data = [], cumAdCost = 0, cumRevenue = 0, cumProfit = 0,
        currentAdCost = adCost inputs\<rparr>)"

section \<open>Auxiliary notions for the proofs\<close>

text \<open>
  The definitions of this section are not code of the simulator. They name what the
  proofs below talk about: the variables as \<^verbatim>\<open>calculateCompoundEffect\<close> initialises
  them, their values on entry to the pass with counter value \<open>m\<close>, the number of
  passes the loop makes, and the row a pass pushes onto \<^verbatim>\<open>data\<close>.
\<close>

definition initial_vars :: "InputValues \<Rightarrow> LoopVars" where
  "initial_vars inputs =
     \<lparr>data = [], cumAdCost = 0, cumRevenue = 0, cumProfit = 0, currentAdCost = adCost inputs\<rparr>"

fun vars_at :: "InputValues \<Rightarrow> nat \<Rightarrow> LoopVars" where
  "vars_at inputs 0 = initial_vars inputs"
| "vars_at inputs (Suc m) = loop_body inputs m (vars_at inputs m)"

definition iterations :: "InputValues \<Rightarrow> nat" where
  "iterations inputs = (if months inputs < 0 then 0 else nat \<lfloor>months inputs\<rfloor> + 1)"

definition pushed :: "InputValues \<Rightarrow> nat \<Rightarrow> LoopVars \<Rightarrow> CompoundDataItem" where
  "pushed inputs m s = last (data (loop_body inputs m s))"

text \<open>
  What the row of month \<open>j\<close> satisfies under the rounding \<open>rnd\<close>: its figures, related
  as the body of the loop computes them.
\<close>

definition row_law :: "(real \<Rightarrow> real) \<Rightarrow> InputValues \<Rightarrow> nat \<Rightarrow> CompoundDataItem \<Rightarrow> bool" where
  "row_law rnd inputs j r \<longleftrightarrow>
     month r = j \<and>
     (1 \<le> j \<longrightarrow>
        item_revenue r = rnd (rnd (item_adCost r * roas inputs) / 100) \<and>
        item_profit r =
          rnd (rnd (item_revenue r * rnd (profitMargin inputs / 100))
               - rnd (rnd (item_revenue r * rnd (profitMargin inputs / 100))
                      * rnd (affiliateCommission inputs / 100))))"

section \<open>The loop, pass by pass\<close>

lemma guard_iff_iterations: "real m \<le> months inputs \<longleftrightarrow> m < iterations inputs"
proof (cases "months inputs < 0")
  case True
  then show ?thesis by (simp add: iterations_def)
next
  case False
  have "real m \<le> months inputs \<longleftrightarrow> int m \<le> \<lfloor>months inputs\<rfloor>"
    by (simp add: le_floor_iff)
  with False show ?thesis
    by (simp add: iterations_def) linarith
qed

lemma for_loop_vars_at:
  "m \<le> iterations inputs \<Longrightarrow>
     for_loop inputs m (vars_at inputs m) = vars_at inputs (iterations inputs)"
proof (induction "iterations inputs - m" arbitrary: m)
  case 0
  then have "m = iterations inputs" by simp
  then have "\<not> real m \<le> months inputs" by (simp add: guard_iff_iterations)
  then show ?case using \<open>m = iterations inputs\<close> by (simp add: for_loop.simps)
next
  case (Suc d)
  then have lt: "m < iterations inputs" by simp
  then have g: "real m \<le> months inputs" by (simp add: guard_iff_iterations)
  have "for_loop inputs (Suc m) (vars_at inputs (Suc m)) = vars_at inputs (iterations inputs)"
    using Suc lt by (intro Suc.hyps(1)) simp_all
  then show ?case using g by (subst for_loop.simps) simp
qed

lemma calculateCompoundEffect_vars_at:
  "calculateCompoundEffect inputs p = data (vars_at inputs (iterations inputs))"
  using for_loop_vars_at [of 0 inputs]
  by (simp add: calculateCompoundEffect_def initial_vars_def)

lemma data_loop_body: "data (loop_body inputs m s) = data s @ [pushed inputs m s]"
  by (simp add: pushed_def loop_body_def Let_def)

lemma length_data_vars_at: "length (data (vars_at inputs n)) = n"
  by (induction n) (simp_all add: initial_vars_def data_loop_body)

lemma nth_data_vars_at:
  "k < n \<Longrightarrow> data (vars_at inputs n) ! k = pushed inputs k (vars_at inputs k)"
proof (induction n)
  case 0
  then show ?case by simp
next
  case (Suc n)
  show ?case
  proof (cases "k = n")
    case True
    then show ?thesis by (simp add: data_loop_body nth_append length_data_vars_at)
  next
    case False
    with Suc have "k < n" by simp
    with Suc.IH show ?thesis by (simp add: data_loop_body nth_append length_data_vars_at)
  qed
qed

lemma length_calculateCompoundEffect:
  "length (calculateCompoundEffect inputs p) = iterations inputs"
  by (simp add: calculateCompoundEffect_vars_at length_data_vars_at)

lemma nth_calculateCompoundEffect:
  "k < iterations inputs \<Longrightarrow>
     calculateCompoundEffect inputs p ! k = pushed inputs k (vars_at inputs k)"
  by (simp add: calculateCompoundEffect_vars_at nth_data_vars_at)

lemma initial_vars_sel:
  "data (initial_vars inputs) = []"
  "cumAdCost (initial_vars inputs) = 0"
  "cumRevenue (initial_vars inputs) = 0"
  "cumProfit (initial_vars inputs) = 0"
  "currentAdCost (initial_vars inputs) = adCost inputs"
  by (simp_all add: initial_vars_def)

lemma pushed_0:
  "pushed inputs 0 (initial_vars inputs) =
     \<lparr>month = 0, item_adCost = adCost inputs, item_revenue = 0, item_profit = 0,
      cumulativeAdCost = 0, cumulativeRevenue = 0, cumulativeProfit = 0\<rparr>"
  by (simp add: pushed_def loop_body_def initial_vars_def)

lemma pushed_fields:
  "0 < m \<Longrightarrow> month (pushed inputs m s) = m"
  "0 < m \<Longrightarrow> item_adCost (pushed inputs m s) = currentAdCost s"
  "0 < m \<Longrightarrow> item_revenue (pushed inputs m s) = currentAdCost s * roas inputs / 100"
  "0 < m \<Longrightarrow> item_profit (pushed inputs m s) =
     currentAdCost s * roas inputs / 100 * (profitMargin inputs / 100)
     - currentAdCost s * roas inputs / 100 * (profitMargin inputs / 100)
         * (affiliateCommission inputs / 100)"
  by (simp_all add: pushed_def loop_body_def Let_def)

lemma pushed_cumulative:
  "0 < m \<Longrightarrow> cumulativeAdCost (pushed inputs m s) =
     (if m = 1 \<and> firstMonthFree inputs then cumAdCost s else cumAdCost s + currentAdCost s)"
  "0 < m \<Longrightarrow> cumulativeRevenue (pushed inputs m s) = cumRevenue s + item_revenue (pushed inputs m s)"
  "0 < m \<Longrightarrow> cumulativeProfit (pushed inputs m s) =
     (if m = 1 \<and> firstMonthFree inputs then cumProfit s + item_profit (pushed inputs m s)
      else cumProfit s + (item_profit (pushed inputs m s) - currentAdCost s))"
  by (simp_all add: pushed_def loop_body_def Let_def)

lemma loop_body_pos:
  "0 < m \<Longrightarrow> loop_body inputs m s =
     \<lparr>data = data s @ [pushed inputs m s],
      cumAdCost = cumulativeAdCost (pushed inputs m s),
      cumRevenue = cumulativeRevenue (pushed inputs m s),
      cumProfit = cumulativeProfit (pushed inputs m s),
      currentAdCost = (if item_profit (pushed inputs m s) > 0
                       then item_profit (pushed inputs m s) else adCost inputs)\<rparr>"
proof -
  assume "0 < m"
  then have m: "(m = 0) = False" by simp
  show ?thesis
    unfolding pushed_def loop_body_def Let_def m
    by (simp only: if_False LoopVars.select_convs CompoundDataItem.select_convs last_snoc)
qed

lemma loop_body_0:
  "loop_body inputs 0 s = s\<lparr>data := data s @ [pushed inputs 0 s]\<rparr>"
  by (simp add: pushed_def loop_body_def)

lemma vars_at_accumulators:
  "cumAdCost (vars_at inputs (Suc k)) = cumulativeAdCost (pushed inputs k (vars_at inputs k))"
  "cumRevenue (vars_at inputs (Suc k)) = cumulativeRevenue (pushed inputs k (vars_at inputs k))"
  "cumProfit (vars_at inputs (Suc k)) = cumulativeProfit (pushed inputs k (vars_at inputs k))"
proof -
  show "cumAdCost (vars_at inputs (Suc k)) = cumulativeAdCost (pushed inputs k (vars_at inputs k))"
    by (cases k) (simp_all add: loop_body_0 loop_body_pos pushed_0 initial_vars_sel)
  show "cumRevenue (vars_at inputs (Suc k)) = cumulativeRevenue (pushed inputs k (vars_at inputs k))"
    by (cases k) (simp_all add: loop_body_0 loop_body_pos pushed_0 initial_vars_sel)
  show "cumProfit (vars_at inputs (Suc k)) = cumulativeProfit (pushed inputs k (vars_at inputs k))"
    by (cases k) (simp_all add: loop_body_0 loop_body_pos pushed_0 initial_vars_sel)
qed

lemma vars_at_currentAdCost:
  "currentAdCost (vars_at inputs (Suc k)) =
     (if k = 0 then adCost inputs
      else if item_profit (pushed inputs k (vars_at inputs k)) > 0
           then item_profit (pushed inputs k (vars_at inputs k)) else adCost inputs)"
  by (cases k) (simp_all add: loop_body_0 loop_body_pos initial_vars_sel)

section \<open>The cumulative figures\<close>

lemma accrue_waived:
  fixes cp cr ca ip ir P Q :: real
  shows "cp = cr * P * Q - ca \<Longrightarrow> ip = ir * P * Q \<Longrightarrow> cp + ip = (cr + ir) * P * Q - ca"
  by (simp add: algebra_simps)

lemma accrue_charged:
  fixes cp cr ca ip ir P Q a :: real
  shows "cp = cr * P * Q - ca \<Longrightarrow> ip = ir * P * Q \<Longrightarrow>
           cp + (ip - a) = (cr + ir) * P * Q - (ca + a)"
  by (simp add: algebra_simps)

lemma pushed_profit_revenue:
  assumes "0 < m"
  shows "item_profit (pushed inputs m s) =
           item_revenue (pushed inputs m s) * (profitMargin inputs / 100)
             * (1 - affiliateCommission inputs / 100)"
  unfolding pushed_fields(3,4) [OF assms] by (simp only: right_diff_distrib mult_1_right)

lemma pushed_consistent:
  assumes "cumProfit s = cumRevenue s * (profitMargin inputs / 100) * (1 - affiliateCommission inputs / 100) - cumAdCost s"
    and "0 < m"
  shows "cumulativeProfit (pushed inputs m s) =
           cumulativeRevenue (pushed inputs m s) * (profitMargin inputs / 100)
             * (1 - affiliateCommission inputs / 100)
           - cumulativeAdCost (pushed inputs m s)"
proof -
  let ?r = "pushed inputs m s"
  note pr = pushed_profit_revenue [OF assms(2), of inputs s]
  have rev: "cumulativeRevenue ?r = cumRevenue s + item_revenue ?r"
    by (rule pushed_cumulative(2) [OF assms(2)])
  show ?thesis
  proof (cases "m = 1 \<and> firstMonthFree inputs")
    case True
    then have "cumulativeAdCost ?r = cumAdCost s"
      and "cumulativeProfit ?r = cumProfit s + item_profit ?r"
      using assms(2) by (simp_all add: pushed_cumulative(1,3))
    with rev accrue_waived [OF assms(1) pr] show ?thesis
      by (simp only:)
  next
    case False
    then have "cumulativeAdCost ?r = cumAdCost s + currentAdCost s"
      and "cumulativeProfit ?r = cumProfit s + (item_profit ?r - currentAdCost s)"
      using assms(2) by (auto simp add: pushed_cumulative(1,3))
    with rev accrue_charged [OF assms(1) pr] show ?thesis
      by (simp only:)
  qed
qed

lemma vars_at_consistent:
  "cumProfit (vars_at inputs n) =
     cumRevenue (vars_at inputs n) * (profitMargin inputs / 100)
       * (1 - affiliateCommission inputs / 100)
     - cumAdCost (vars_at inputs n)"
proof (induction n)
  case 0
  show ?case by (simp add: initial_vars_sel)
next
  case (Suc n)
  show ?case
  proof (cases "n = 0")
    case True
    then show ?thesis by (simp add: loop_body_0 initial_vars_sel)
  next
    case False
    then have "0 < n" by simp
    from pushed_consistent [OF Suc.IH this] show ?thesis
      by (simp only: vars_at_accumulators)
  qed
qed

lemma rows_consistent:
  assumes "k < iterations inputs"
  shows "cumulativeProfit (calculateCompoundEffect inputs p ! k) =
           cumulativeRevenue (calculateCompoundEffect inputs p ! k) * (profitMargin inputs / 100)
             * (1 - affiliateCommission inputs / 100)
           - cumulativeAdCost (calculateCompoundEffect inputs p ! k)"
proof (cases "k = 0")
  case True
  with assms show ?thesis by (simp add: nth_calculateCompoundEffect pushed_0)
next
  case False
  then have "0 < k" by simp
  from pushed_consistent [OF vars_at_consistent this] assms show ?thesis
    by (simp only: nth_calculateCompoundEffect)
qed

section \<open>Single rows\<close>

lemma nth_row:
  "real m \<le> months inputs \<Longrightarrow>
     calculateCompoundEffect inputs p ! m = pushed inputs m (vars_at inputs m)"
  by (simp add: guard_iff_iterations nth_calculateCompoundEffect)

lemma guard_pred: "real (Suc m) \<le> months inputs \<Longrightarrow> real m \<le> months inputs"
  by simp

lemma initial_row_1:
  "calculateCompoundEffect initial_inputs p ! 1 =
     \<lparr>month = 1, item_adCost = 500000, item_revenue = 1500000, item_profit = 720000,
      cumulativeAdCost = 0, cumulativeRevenue = 1500000, cumulativeProfit = 720000\<rparr>"
proof -
  have "real 1 \<le> months initial_inputs"
    by (simp add: initial_inputs_def)
  from nth_row [OF this] show ?thesis
    by (simp add: pushed_def loop_body_def Let_def initial_vars_def initial_inputs_def)
qed

lemma row_1_waived:
  assumes "firstMonthFree inputs" and "1 \<le> months inputs"
  shows "cumulativeAdCost (calculateCompoundEffect inputs p ! 1) = 0"
    and "cumulativeProfit (calculateCompoundEffect inputs p ! 1) =
           item_profit (calculateCompoundEffect inputs p ! 1)"
proof -
  from assms(2) have "real 1 \<le> months inputs" by simp
  note row = nth_row [OF this, of p]
  have acc: "cumAdCost (vars_at inputs 1) = 0" "cumProfit (vars_at inputs 1) = 0"
    by (simp_all add: loop_body_0 initial_vars_sel)
  show "cumulativeAdCost (calculateCompoundEffect inputs p ! 1) = 0"
    unfolding row using assms(1) acc by (simp add: pushed_cumulative(1))
  show "cumulativeProfit (calculateCompoundEffect inputs p ! 1) =
           item_profit (calculateCompoundEffect inputs p ! 1)"
    unfolding row using assms(1) acc by (simp add: pushed_cumulative(3))
qed

lemma later_rows_charged:
  assumes "2 \<le> m" and "real m \<le> months inputs"
  shows "cumulativeAdCost (calculateCompoundEffect inputs p ! m) =
           cumulativeAdCost (calculateCompoundEffect inputs p ! (m - 1))
           + item_adCost (calculateCompoundEffect inputs p ! m)"
    and "cumulativeProfit (calculateCompoundEffect inputs p ! m) =
           cumulativeProfit (calculateCompoundEffect inputs p ! (m - 1))
           + (item_profit (calculateCompoundEffect inputs p ! m)
              - item_adCost (calculateCompoundEffect inputs p ! m))"
proof -
  from assms(1) obtain k where m: "m = Suc k" and k: "1 \<le> k"
    by (cases m) auto
  from assms(2) m have gk: "real k \<le> months inputs" by simp
  have pos: "0 < m" and not_first: "m \<noteq> 1" using m k by simp_all
  note row_m = nth_row [OF assms(2), of p]
  have row_k: "calculateCompoundEffect inputs p ! (m - 1) = pushed inputs k (vars_at inputs k)"
    using nth_row [OF gk, of p] m by simp
  have ad: "item_adCost (pushed inputs m (vars_at inputs m)) = currentAdCost (vars_at inputs m)"
    by (rule pushed_fields(2) [OF pos])
  have "cumulativeAdCost (pushed inputs m (vars_at inputs m)) =
          cumAdCost (vars_at inputs m) + currentAdCost (vars_at inputs m)"
    using pos not_first by (simp add: pushed_cumulative(1))
  then show "cumulativeAdCost (calculateCompoundEffect inputs p ! m) =
           cumulativeAdCost (calculateCompoundEffect inputs p ! (m - 1))
           + item_adCost (calculateCompoundEffect inputs p ! m)"
    unfolding row_m row_k ad by (simp only: m vars_at_accumulators(1))
  have "cumulativeProfit (pushed inputs m (vars_at inputs m)) =
          cumProfit (vars_at inputs m)
          + (item_profit (pushed inputs m (vars_at inputs m)) - currentAdCost (vars_at inputs m))"
    using pos not_first by (simp add: pushed_cumulative(3))
  then show "cumulativeProfit (calculateCompoundEffect inputs p ! m) =
           cumulativeProfit (calculateCompoundEffect inputs p ! (m - 1))
           + (item_profit (calculateCompoundEffect inputs p ! m)
              - item_adCost (calculateCompoundEffect inputs p ! m))"
    unfolding row_m row_k ad by (simp only: m vars_at_accumulators(3))
qed

section \<open>Inputs that differ in unread fields; the figures of \<^verbatim>\<open>calculate\<close>\<close>

lemma dead_fields_sel:
  "adCost (inputs\<lparr>conversionRate := c, appointments := a\<rparr>) = adCost inputs"
  "productPrice (inputs\<lparr>conversionRate := c, appointments := a\<rparr>) = productPrice inputs"
  "roas (inputs\<lparr>conversionRate := c, appointments := a\<rparr>) = roas inputs"
  "profitMargin (inputs\<lparr>conversionRate := c, appointments := a\<rparr>) = profitMargin inputs"
  "affiliateCommission (inputs\<lparr>conversionRate := c, appointments := a\<rparr>) =
     affiliateCommission inputs"
  "seatCpa (inputs\<lparr>conversionRate := c, appointments := a\<rparr>) = seatCpa inputs"
  "operationDays (inputs\<lparr>conversionRate := c, appointments := a\<rparr>) = operationDays inputs"
  "months (inputs\<lparr>conversionRate := c, appointments := a\<rparr>) = months inputs"
  "firstMonthFree (inputs\<lparr>conversionRate := c, appointments := a\<rparr>) = firstMonthFree inputs"
  by simp_all

lemma loop_body_dead_fields:
  "loop_body (inputs\<lparr>conversionRate := c, appointments := a\<rparr>) m s = loop_body inputs m s"
  by (simp only: loop_body_def dead_fields_sel)

lemma vars_at_dead_fields:
  "vars_at (inputs\<lparr>conversionRate := c, appointments := a\<rparr>) n = vars_at inputs n"
  by (induction n) (simp_all only: vars_at.simps loop_body_dead_fields initial_vars_def dead_fields_sel)

lemma calculateCompoundEffect_dead_fields:
  "calculateCompoundEffect (inputs\<lparr>conversionRate := c, appointments := a\<rparr>) p =
     calculateCompoundEffect inputs p"
  by (simp only: calculateCompoundEffect_vars_at vars_at_dead_fields iterations_def dead_fields_sel)

lemma calculate_dead_fields:
  "calculate (inputs\<lparr>conversionRate := c, appointments := a\<rparr>) = calculate inputs"
  by (simp only: calculate_def calculateCompoundEffect_dead_fields dead_fields_sel)

lemma calculate_figures:
  "\<exists>r d. calculate inputs = Some (r, d) \<and>
      revenue r = adCost inputs * roas inputs / 100 \<and>
      numberOfSales r = (if productPrice inputs > 0 then revenue r / productPrice inputs else 0) \<and>
      cpa r = (if numberOfSales r > 0 then adCost inputs / numberOfSales r else 0) \<and>
      profitAmount r = revenue r * profitMargin inputs / 100 \<and>
      affiliateAmount r = profitAmount r * affiliateCommission inputs / 100 \<and>
      profitBeforeAdCost r = profitAmount r - affiliateAmount r \<and>
      profit r = (if firstMonthFree inputs then profitBeforeAdCost r
                  else profitBeforeAdCost r - adCost inputs) \<and>
      roasActual r = (if adCost inputs > 0 then revenue r / adCost inputs * 100 else 0) \<and>
      seatCount r = (if seatCpa inputs > 0 then adCost inputs / seatCpa inputs else 0) \<and>
      dailyCost r = (if operationDays inputs > 0 then adCost inputs / operationDays inputs else 0)"
proof -
  define revenue' where "revenue' = adCost inputs * roas inputs / 100"
  define numberOfSales' where
    "numberOfSales' = (if productPrice inputs > 0 then revenue' / productPrice inputs else 0)"
  have n: "(if productPrice inputs > 0 then divide_num revenue' (productPrice inputs) else Some 0)
             = Some numberOfSales'"
    by (simp add: divide_num_def numberOfSales'_def)
  define cpa' where "cpa' = (if numberOfSales' > 0 then adCost inputs / numberOfSales' else 0)"
  have c: "(if numberOfSales' > 0 then divide_num (adCost inputs) numberOfSales' else Some 0)
             = Some cpa'"
    by (simp add: divide_num_def cpa'_def)
  define roasActual' where
    "roasActual' = (if adCost inputs > 0 then revenue' / adCost inputs * 100 else 0)"
  have ra: "(if adCost inputs > 0
             then do { q \<leftarrow> divide_num revenue' (adCost inputs); Some (q * 100) }
             else Some 0) = Some roasActual'"
    by (simp add: divide_num_def roasActual'_def)
  define seatCount' where
    "seatCount' = (if seatCpa inputs > 0 then adCost inputs / seatCpa inputs else 0)"
  have sc: "(if seatCpa inputs > 0 then divide_num (adCost inputs) (seatCpa inputs) else Some 0)
              = Some seatCount'"
    by (simp add: divide_num_def seatCount'_def)
  define dailyCost' where
    "dailyCost' = (if operationDays inputs > 0 then adCost inputs / operationDays inputs else 0)"
  have dc: "(if operationDays inputs > 0
             then divide_num (adCost inputs) (operationDays inputs) else Some 0) = Some dailyCost'"
    by (simp add: divide_num_def dailyCost'_def)
  have "\<exists>d. calculate inputs =
      Some (\<lparr>revenue = revenue',
             profit = (if firstMonthFree inputs
                       then revenue' * profitMargin inputs / 100
                            - revenue' * profitMargin inputs / 100 * affiliateCommission inputs / 100
                       else revenue' * profitMargin inputs / 100
                            - revenue' * profitMargin inputs / 100 * affiliateCommission inputs / 100
                            - adCost inputs),
             profitBeforeAdCost =
               revenue' * profitMargin inputs / 100
               - revenue' * profitMargin inputs / 100 * affiliateCommission inputs / 100,
             numberOfSales = numberOfSales', cpa = cpa', roasActual = roasActual',
             seatCount = seatCount', dailyCost = dailyCost',
             affiliateAmount = revenue' * profitMargin inputs / 100 * affiliateCommission inputs / 100,
             profitAmount = revenue' * profitMargin inputs / 100\<rparr>, d)"
    by (simp only: calculate_def revenue'_def [symmetric] Let_def n c ra sc dc bind.bind_lunit)
      blast
  then obtain d where "calculate inputs = Some (\<lparr>revenue = revenue',
             profit = (if firstMonthFree inputs
                       then revenue' * profitMargin inputs / 100
                            - revenue' * profitMargin inputs / 100 * affiliateCommission inputs / 100
                       else revenue' * profitMargin inputs / 100
                            - revenue' * profitMargin inputs / 100 * affiliateCommission inputs / 100
                            - adCost inputs),
             profitBeforeAdCost =
               revenue' * profitMargin inputs / 100
               - revenue' * profitMargin inputs / 100 * affiliateCommission inputs / 100,
             numberOfSales = numberOfSales', cpa = cpa', roasActual = roasActual',
             seatCount = seatCount', dailyCost = dailyCost',
             affiliateAmount = revenue' * profitMargin inputs / 100 * affiliateCommission inputs / 100,
             profitAmount = revenue' * profitMargin inputs / 100\<rparr>, d)" ..
  then show ?thesis
    by (simp add: revenue'_def numberOfSales'_def cpa'_def roasActual'_def seatCount'_def
        dailyCost'_def)
qed

section \<open>Rounded arithmetic: the rounding, the loop, the run on the initial inputs\<close>

text \<open>
  The rounding is what its description says: \<open>floor_log2\<close> and \<open>exponent\<close> bracket
  their argument between two consecutive powers of 2, \<open>round_half_even\<close> moves its
  argument by at most one half and resolves a tie to the even neighbour, and
  \<open>round64\<close> moves its argument by at most half a unit in the last place.
\<close>

lemma floor_log2_bounds:
  "0 < n \<Longrightarrow> 2 ^ floor_log2 n \<le> n \<and> n < 2 ^ Suc (floor_log2 n)"
proof (induction n rule: floor_log2.induct)
  case (1 n)
  show ?case
  proof (cases "n < 2")
    case True
    with "1.prems" have "n = 1" by simp
    then show ?thesis by (simp add: floor_log2.simps)
  next
    case False
    then have "0 < n div 2" by simp
    with "1.IH" False have ih: "2 ^ floor_log2 (n div 2) \<le> n div 2"
      "n div 2 < 2 ^ Suc (floor_log2 (n div 2))"
      by simp_all
    have eq: "floor_log2 n = Suc (floor_log2 (n div 2))"
      using False by (subst floor_log2.simps) simp
    from ih show ?thesis
      unfolding eq by (simp; linarith)
  qed
qed

lemma scale2_powi: "scale2 x k = x * 2 powi k"
  by (simp add: scale2_def power_int_def field_simps power_inverse)

lemma round_half_even_nearest: "\<bar>real_of_int (round_half_even x) - x\<bar> \<le> 1 / 2"
  by (simp add: round_half_even_def Let_def; linarith)

lemma round_half_even_tie:
  "x - real_of_int \<lfloor>x\<rfloor> = 1 / 2 \<Longrightarrow> even (round_half_even x)"
  by (simp add: round_half_even_def Let_def)

lemma exponent_bounds:
  assumes "x \<noteq> 0"
  shows "2 powi exponent x \<le> \<bar>x\<bar> \<and> \<bar>x\<bar> < 2 powi (exponent x + 1)"
proof (cases "1 \<le> \<bar>x\<bar>")
  case True
  define n where "n = nat \<lfloor>\<bar>x\<bar>\<rfloor>"
  have n: "0 < n" "real n \<le> \<bar>x\<bar>" "\<bar>x\<bar> < real n + 1"
    using True by (simp_all add: n_def; linarith)+
  from floor_log2_bounds [OF n(1)] have "2 ^ floor_log2 n \<le> n"
    and "Suc n \<le> 2 ^ Suc (floor_log2 n)"
    by simp_all
  then have "(2::real) ^ floor_log2 n \<le> real n"
    and "real (Suc n) \<le> (2::real) ^ Suc (floor_log2 n)"
    by (metis of_nat_le_iff of_nat_numeral of_nat_power)+
  with n have "2 ^ floor_log2 n \<le> \<bar>x\<bar>" "\<bar>x\<bar> < 2 ^ Suc (floor_log2 n)"
    by (simp_all only: of_nat_Suc; linarith)+
  moreover have "exponent x = int (floor_log2 n)"
    using True by (simp add: exponent_def n_def)
  ultimately show ?thesis
    by (simp add: power_int_def nat_add_distrib)
next
  case False
  define y where "y = 1 / \<bar>x\<bar>"
  define c where "c = nat \<lceil>y\<rceil>"
  from False assms have y: "1 < y" "0 < \<bar>x\<bar>" by (simp_all add: y_def)
  then have c: "2 \<le> c" "y \<le> real c" "real c - 1 < y"
    by (simp_all add: c_def; linarith)+
  define f where "f = floor_log2 (c - 1)"
  from c(1) have "0 < c - 1" by simp
  from floor_log2_bounds [OF this] have b: "2 ^ f \<le> c - 1" "c - 1 < 2 ^ Suc f"
    by (simp_all add: f_def)
  from b(2) c(1) have "c \<le> 2 ^ Suc f" by simp
  then have "real c \<le> 2 ^ Suc f" by (metis of_nat_le_iff of_nat_numeral of_nat_power)
  with c(2) have up: "y \<le> 2 ^ Suc f" by simp
  from b(1) have "real (2 ^ f) \<le> real (c - 1)" by (simp only: of_nat_le_iff)
  with c(1) have "2 ^ f \<le> real c - 1" by (simp add: of_nat_diff)
  with c(3) have lo: "2 ^ f < y" by simp
  have e: "exponent x = - int (Suc f)"
    using False by (simp add: exponent_def f_def c_def y_def)
  have "1 / 2 ^ Suc f \<le> \<bar>x\<bar>"
    using up y(2) unfolding y_def by (simp add: field_simps)
  moreover have "\<bar>x\<bar> < 1 / 2 ^ f"
    using lo y(2) unfolding y_def by (simp add: field_simps)
  ultimately show ?thesis
    unfolding e by (auto simp add: power_int_def field_simps power_inverse nat_add_distrib)
qed

lemma loop_body_fl_id: "loop_body_fl id inputs m s = loop_body inputs m s"
  by (simp only: loop_body_fl_def loop_body_def id_apply)

lemma for_loop_fl_id: "for_loop_fl id inputs m s = for_loop inputs m s"
proof (induction inputs m s rule: for_loop.induct)
  case (1 inputs m s)
  show ?case
  proof (cases "real m \<le> months inputs")
    case True
    have "for_loop_fl id inputs m s = for_loop_fl id inputs (Suc m) (loop_body_fl id inputs m s)"
      using True by (subst for_loop_fl.simps) (simp only: if_True)
    also have "\<dots> = for_loop inputs (Suc m) (loop_body inputs m s)"
      unfolding loop_body_fl_id by (rule "1.IH" [OF True])
    also have "\<dots> = for_loop inputs m s"
      using True by (subst (2) for_loop.simps) (simp only: if_True)
    finally show ?thesis .
  next
    case False
    have "for_loop_fl id inputs m s = s"
      using False by (subst for_loop_fl.simps) (simp only: if_False)
    moreover have "for_loop inputs m s = s"
      using False by (subst for_loop.simps) (simp only: if_False)
    ultimately show ?thesis by (simp only:)
  qed
qed

lemma calculateCompoundEffect_fl_id:
  "calculateCompoundEffect_fl id inputs = calculateCompoundEffect inputs p"
  by (simp add: calculateCompoundEffect_fl_def calculateCompoundEffect_def for_loop_fl_id)

lemma for_loop_fl_rule:
  assumes "I m s"
    and "\<And>k t. I k t \<Longrightarrow> real k \<le> months inputs \<Longrightarrow> I (Suc k) (loop_body_fl rnd inputs k t)"
  shows "\<exists>n. \<not> real n \<le> months inputs \<and> I n (for_loop_fl rnd inputs m s)"
  using assms
proof (induction rnd inputs m s rule: for_loop_fl.induct)
  case (1 rnd inputs m s)
  show ?case
  proof (cases "real m \<le> months inputs")
    case True
    have step: "I (Suc m) (loop_body_fl rnd inputs m s)"
      by (rule "1.prems"(2) [OF "1.prems"(1) True])
    have "\<exists>n. \<not> real n \<le> months inputs
            \<and> I n (for_loop_fl rnd inputs (Suc m) (loop_body_fl rnd inputs m s))"
      by (rule "1.IH" [OF True step "1.prems"(2)])
    moreover have "for_loop_fl rnd inputs m s =
        for_loop_fl rnd inputs (Suc m) (loop_body_fl rnd inputs m s)"
      using True by (subst for_loop_fl.simps) (simp only: if_True)
    ultimately show ?thesis by (simp only:)
  next
    case False
    have "for_loop_fl rnd inputs m s = s"
      using False by (subst for_loop_fl.simps) (simp only: if_False)
    with False "1.prems"(1) show ?thesis by auto
  qed
qed

lemma round64_nearest:
  "\<bar>round64 x - x\<bar> \<le> 2 powi (max (exponent x) (- 1022) - 52) / 2"
proof (cases "x = 0")
  case True
  then show ?thesis by (simp add: round64_def)
next
  case False
  define k where "k = max (exponent x) (- 1022) - 52"
  have pos: "(0::real) < 2 powi k" by simp
  have inv: "(2::real) powi (- k) * 2 powi k = 1"
    by (simp add: power_int_minus)
  have r: "round64 x = real_of_int (round_half_even (x * 2 powi (- k))) * 2 powi k"
    using False by (simp add: round64_def Let_def scale2_powi k_def)
  have "round64 x - x = (real_of_int (round_half_even (x * 2 powi (- k))) - x * 2 powi (- k)) * 2 powi k"
    unfolding r using inv by (simp add: algebra_simps)
  then have "\<bar>round64 x - x\<bar> = \<bar>real_of_int (round_half_even (x * 2 powi (- k))) - x * 2 powi (- k)\<bar> * 2 powi k"
    using pos by (simp add: abs_mult)
  also have "\<dots> \<le> 1 / 2 * 2 powi k"
    using round_half_even_nearest [of "x * 2 powi (- k)"] pos
    by (intro mult_right_mono) simp_all
  finally show ?thesis
    by (simp add: k_def)
qed

lemma loop_body_fl_0:
  "data (loop_body_fl rnd inputs 0 s) =
     data s @ [\<lparr>month = 0, item_adCost = currentAdCost s, item_revenue = 0, item_profit = 0,
                cumulativeAdCost = cumAdCost s, cumulativeRevenue = 0, cumulativeProfit = 0\<rparr>]"
  by (simp add: loop_body_fl_def)

lemma loop_body_fl_pos:
  assumes "0 < m"
  shows "\<exists>r. data (loop_body_fl rnd inputs m s) = data s @ [r] \<and>
           month r = m \<and>
           item_revenue r = rnd (rnd (item_adCost r * roas inputs) / 100) \<and>
           item_profit r =
             rnd (rnd (item_revenue r * rnd (profitMargin inputs / 100))
                  - rnd (rnd (item_revenue r * rnd (profitMargin inputs / 100))
                         * rnd (affiliateCommission inputs / 100)))"
proof -
  from assms have m: "(m = 0) = False" by simp
  show ?thesis
    unfolding loop_body_fl_def Let_def m if_False LoopVars.select_convs
    by (rule exI, intro conjI, rule refl) (simp_all only: CompoundDataItem.select_convs)
qed

lemma rows_fl_law:
  "\<exists>n. \<not> real n \<le> months inputs \<and>
       length (calculateCompoundEffect_fl rnd inputs) = n \<and>
       (\<forall>j<n. row_law rnd inputs j (calculateCompoundEffect_fl rnd inputs ! j))"
  unfolding calculateCompoundEffect_fl_def
proof (rule for_loop_fl_rule
    [where I = "\<lambda>n (s :: LoopVars). length (data s) = n \<and> (\<forall>j<n. row_law rnd inputs j (data s ! j))"])
  show "length (data \<lparr>data = [], cumAdCost = 0, cumRevenue = 0, cumProfit = 0,
                  currentAdCost = adCost inputs\<rparr>) = 0 \<and>
        (\<forall>j<0. row_law rnd inputs j
           (data \<lparr>data = [], cumAdCost = 0, cumRevenue = 0, cumProfit = 0,
                  currentAdCost = adCost inputs\<rparr> ! j))"
    by simp
next
  fix k :: nat and t :: LoopVars
  assume inv: "length (data t) = k \<and> (\<forall>j<k. row_law rnd inputs j (data t ! j))"
  show "length (data (loop_body_fl rnd inputs k t)) = Suc k \<and>
        (\<forall>j<Suc k. row_law rnd inputs j (data (loop_body_fl rnd inputs k t) ! j))"
  proof (cases "k = 0")
    case True
    with inv show ?thesis
      by (simp add: loop_body_fl_0 row_law_def)
  next
    case False
    then have "0 < k" by simp
    from loop_body_fl_pos [OF this, of rnd inputs t] obtain r
      where d: "data (loop_body_fl rnd inputs k t) = data t @ [r]"
        and r: "row_law rnd inputs k r"
      unfolding row_law_def by blast
    from inv r show ?thesis
      unfolding d by (auto simp add: nth_append less_Suc_eq)
  qed
qed

lemma nth_rows_fl_law:
  assumes "real m \<le> months inputs"
  shows "row_law rnd inputs m (calculateCompoundEffect_fl rnd inputs ! m)"
proof -
  from rows_fl_law [of inputs rnd] obtain n where n: "\<not> real n \<le> months inputs"
    and law: "\<forall>j<n. row_law rnd inputs j (calculateCompoundEffect_fl rnd inputs ! j)"
    by blast
  from n assms have "m < n"
    by (metis not_le_imp_less of_nat_le_iff order_trans)
  with law show ?thesis by blast
qed

lemma default_rows_fl:
  "take 6 (calculateCompoundEffect_fl round64 initial_inputs) =
    [\<lparr>month = 0, item_adCost = 500000, item_revenue = 0, item_profit = 0,
      cumulativeAdCost = 0, cumulativeRevenue = 0, cumulativeProfit = 0\<rparr>,
     \<lparr>month = 1, item_adCost = 500000, item_revenue = 1500000, item_profit = 720000,
      cumulativeAdCost = 0, cumulativeRevenue = 1500000, cumulativeProfit = 720000\<rparr>,
     \<lparr>month = 2, item_adCost = 720000, item_revenue = 2160000, item_profit = 1036800,
      cumulativeAdCost = 720000, cumulativeRevenue = 3660000, cumulativeProfit = 1036800\<rparr>,
     \<lparr>month = 3, item_adCost = 1036800, item_revenue = 3110400, item_profit = 1492992,
      cumulativeAdCost = 1756800, cumulativeRevenue = 6770400, cumulativeProfit = 1492992\<rparr>,
     \<lparr>month = 4, item_adCost = 1492992, item_revenue = 4478976, item_profit = 4616893305496535 / 2147483648,
      cumulativeAdCost = 3249792, cumulativeRevenue = 11249376, cumulativeProfit = 4616893305496535 / 2147483648\<rparr>,
     \<lparr>month = 5, item_adCost = 4616893305496535 / 2147483648, item_revenue = 6925339958244803 / 1073741824, item_profit = 3324163179957505 / 1073741824,
      cumulativeAdCost = 1449471060612219 / 268435456, cumulativeRevenue = 4751066365836657 / 268435456, cumulativeProfit = 3324163179957505 / 1073741824\<rparr>]"
  by (simp add: calculateCompoundEffect_fl_def for_loop_fl.simps loop_body_fl_def Let_def
      initial_inputs_def round64_def exponent_def floor_log2.simps round_half_even_def scale2_def
      cong: let_weak_cong)

lemma default_row_fl:
  "calculateCompoundEffect_fl round64 initial_inputs ! 1 =
     \<lparr>month = 1, item_adCost = 500000, item_revenue = 1500000, item_profit = 720000,
      cumulativeAdCost = 0, cumulativeRevenue = 1500000, cumulativeProfit = 720000\<rparr>"
  "calculateCompoundEffect_fl round64 initial_inputs ! 2 =
     \<lparr>month = 2, item_adCost = 720000, item_revenue = 2160000, item_profit = 1036800,
      cumulativeAdCost = 720000, cumulativeRevenue = 3660000, cumulativeProfit = 1036800\<rparr>"
  "calculateCompoundEffect_fl round64 initial_inputs ! 4 =
     \<lparr>month = 4, item_adCost = 1492992, item_revenue = 4478976,
      item_profit = 4616893305496535 / 2147483648,
      cumulativeAdCost = 3249792, cumulativeRevenue = 11249376,
      cumulativeProfit = 4616893305496535 / 2147483648\<rparr>"
  "calculateCompoundEffect_fl round64 initial_inputs ! 5 =
     \<lparr>month = 5, item_adCost = 4616893305496535 / 2147483648,
      item_revenue = 6925339958244803 / 1073741824,
      item_profit = 3324163179957505 / 1073741824,
      cumulativeAdCost = 1449471060612219 / 268435456,
      cumulativeRevenue = 4751066365836657 / 268435456,
      cumulativeProfit = 3324163179957505 / 1073741824\<rparr>"
proof -
  have nth: "calculateCompoundEffect_fl round64 initial_inputs ! i =
      take 6 (calculateCompoundEffect_fl round64 initial_inputs) ! i" if "i < 6" for i
    using that by simp
  show "calculateCompoundEffect_fl round64 initial_inputs ! 1 =
     \<lparr>month = 1, item_adCost = 500000, item_revenue = 1500000, item_profit = 720000,
      cumulativeAdCost = 0, cumulativeRevenue = 1500000, cumulativeProfit = 720000\<rparr>"
    by (subst nth) (simp_all add: default_rows_fl)
  show "calculateCompoundEffect_fl round64 initial_inputs ! 2 =
     \<lparr>month = 2, item_adCost = 720000, item_revenue = 2160000, item_profit = 1036800,
      cumulativeAdCost = 720000, cumulativeRevenue = 3660000, cumulativeProfit = 1036800\<rparr>"
    by (subst nth) (simp_all add: default_rows_fl)
  show "calculateCompoundEffect_fl round64 initial_inputs ! 4 =
     \<lparr>month = 4, item_adCost = 1492992, item_revenue = 4478976,
      item_profit = 4616893305496535 / 2147483648,
      cumulativeAdCost = 3249792, cumulativeRevenue = 11249376,
      cumulativeProfit = 4616893305496535 / 2147483648\<rparr>"
    by (subst nth) (simp_all add: default_rows_fl)
  show "calculateCompoundEffect_fl round64 initial_inputs ! 5 =
     \<lparr>month = 5, item_adCost = 4616893305496535 / 2147483648,
      item_revenue = 6925339958244803 / 1073741824,
      item_profit = 3324163179957505 / 1073741824,
      cumulativeAdCost = 1449471060612219 / 268435456,
      cumulativeRevenue = 4751066365836657 / 268435456,
      cumulativeProfit = 3324163179957505 / 1073741824\<rparr>"
    by (subst nth) (simp_all add: default_rows_fl)
qed

lemmas round64_eval =
  round64_def exponent_def floor_log2.simps round_half_even_def scale2_def Let_def

section \<open>The properties of the specification\<close>

text \<open>
  C9 (cumulative consistency), as amended. In exact arithmetic, that is under the
  identity as rounding, every row of the sequence, for every input and whether or not
  \<^verbatim>\<open>firstMonthFree\<close> is set, satisfies
  cumulativeProfit = cumulativeRevenue * (profitMargin/100) * (1 - affiliateCommission/100)
  - cumulativeAdCost: in the waived first month the same amount is left out of the
  deduction from the net profit and out of the accrued ad cost.
\<close>

theorem cumulative_consistency_exact:
  "\<forall>r \<in> set (calculateCompoundEffect_fl id inputs).
     cumulativeProfit r =
       cumulativeRevenue r * (profitMargin inputs / 100) * (1 - affiliateCommission inputs / 100)
       - cumulativeAdCost r"
proof
  fix r
  assume "r \<in> set (calculateCompoundEffect_fl id inputs)"
  then have "r \<in> set (calculateCompoundEffect inputs 0)"
    by (simp only: calculateCompoundEffect_fl_id [of inputs 0])
  then obtain k where "k < length (calculateCompoundEffect inputs 0)"
    and "r = calculateCompoundEffect inputs 0 ! k"
    by (auto simp: in_set_conv_nth)
  then show "cumulativeProfit r =
       cumulativeRevenue r * (profitMargin inputs / 100) * (1 - affiliateCommission inputs / 100)
       - cumulativeAdCost r"
    using rows_consistent [of k inputs 0] by (simp add: length_calculateCompoundEffect)
qed

theorem cumulative_consistency_exact_witness:
  "calculateCompoundEffect_fl id initial_inputs ! 4 \<in> set (calculateCompoundEffect_fl id initial_inputs) \<and>
   cumulativeProfit (calculateCompoundEffect_fl id initial_inputs ! 4) =
     cumulativeRevenue (calculateCompoundEffect_fl id initial_inputs ! 4) * (60 / 100) * (1 - 20 / 100)
     - cumulativeAdCost (calculateCompoundEffect_fl id initial_inputs ! 4)"
proof -
  have "length (calculateCompoundEffect_fl id initial_inputs) = 13"
    by (simp add: calculateCompoundEffect_fl_id [of _ 0] length_calculateCompoundEffect
        iterations_def initial_inputs_def)
  then have mem: "calculateCompoundEffect_fl id initial_inputs ! 4
                    \<in> set (calculateCompoundEffect_fl id initial_inputs)"
    by simp
  from bspec [OF cumulative_consistency_exact mem] mem show ?thesis
    by (simp add: initial_inputs_def)
qed

text \<open>
  C9 as stated has the identity hold of the rows the program builds. On doubles it
  fails: on the initial inputs of the component the cumulative profit of row 4 is the
  double nearest to 2149908.48, while cumulativeRevenue * (profitMargin/100) *
  (1 - affiliateCommission/100) - cumulativeAdCost evaluates on doubles to the next
  double above it (printed 2149908.4800000004), and exactly to 53747712/25, which is
  no double.
\<close>

theorem cumulative_identity_fails_on_doubles:
  "cumulativeProfit (calculateCompoundEffect_fl round64 initial_inputs ! 4) =
     4616893305496535 / 2147483648 \<and>
   round64 (round64 (round64 (cumulativeRevenue (calculateCompoundEffect_fl round64 initial_inputs ! 4)
                              * round64 (60 / 100))
                     * round64 (1 - round64 (20 / 100)))
            - cumulativeAdCost (calculateCompoundEffect_fl round64 initial_inputs ! 4)) =
     577111663187067 / 268435456 \<and>
   cumulativeProfit (calculateCompoundEffect_fl round64 initial_inputs ! 4) \<noteq>
     round64 (round64 (round64 (cumulativeRevenue (calculateCompoundEffect_fl round64 initial_inputs ! 4)
                                * round64 (60 / 100))
                       * round64 (1 - round64 (20 / 100)))
              - cumulativeAdCost (calculateCompoundEffect_fl round64 initial_inputs ! 4)) \<and>
   cumulativeProfit (calculateCompoundEffect_fl round64 initial_inputs ! 4) \<noteq>
     cumulativeRevenue (calculateCompoundEffect_fl round64 initial_inputs ! 4)
       * (60 / 100) * (1 - 20 / 100)
     - cumulativeAdCost (calculateCompoundEffect_fl round64 initial_inputs ! 4)"
  unfolding default_row_fl CompoundDataItem.select_convs
  by (simp add: round64_eval)

text \<open>
  C5 (row count). When \<^verbatim>\<open>months\<close> is a non-negative integer \<open>n\<close>, the sequence built by
  \<^verbatim>\<open>calculateCompoundEffect\<close> has exactly \<open>n + 1\<close> rows; for \<^verbatim>\<open>months = 0\<close> it is
  the single row of month 0.
\<close>

theorem row_count_law:
  "(months inputs = real n \<longrightarrow> length (calculateCompoundEffect inputs p) = n + 1) \<and>
   (months inputs = 0 \<longrightarrow>
      calculateCompoundEffect inputs p =
        [\<lparr>month = 0, item_adCost = adCost inputs, item_revenue = 0, item_profit = 0,
          cumulativeAdCost = 0, cumulativeRevenue = 0, cumulativeProfit = 0\<rparr>])"
proof (intro conjI impI)
  assume "months inputs = real n"
  then have "iterations inputs = n + 1"
    by (simp add: iterations_def)
  then show "length (calculateCompoundEffect inputs p) = n + 1"
    by (simp add: length_calculateCompoundEffect)
next
  assume "months inputs = 0"
  then have "iterations inputs = Suc 0"
    by (simp add: iterations_def)
  then show "calculateCompoundEffect inputs p =
        [\<lparr>month = 0, item_adCost = adCost inputs, item_revenue = 0, item_profit = 0,
          cumulativeAdCost = 0, cumulativeRevenue = 0, cumulativeProfit = 0\<rparr>]"
    by (simp add: calculateCompoundEffect_vars_at data_loop_body initial_vars_sel pushed_0)
qed

theorem row_count_law_witness:
  "months initial_inputs = real 12 \<and>
   length (calculateCompoundEffect initial_inputs 0) = 12 + 1 \<and>
   months (initial_inputs\<lparr>months := 0\<rparr>) = 0 \<and>
   calculateCompoundEffect (initial_inputs\<lparr>months := 0\<rparr>) 0 =
     [\<lparr>month = 0, item_adCost = 500000, item_revenue = 0, item_profit = 0,
       cumulativeAdCost = 0, cumulativeRevenue = 0, cumulativeProfit = 0\<rparr>]"
  using row_count_law [of initial_inputs 12 0] row_count_law [of "initial_inputs\<lparr>months := 0\<rparr>" 0 0]
  by (simp add: initial_inputs_def)

text \<open>
  C6 (sentinel). When \<^verbatim>\<open>months\<close> is at least 0, the sequence has a row 0, and that row
  has month 0, revenue 0, profit 0, the three cumulative figures 0, and the ad cost
  of the inputs.
\<close>

theorem sentinel_law:
  "0 \<le> months inputs \<Longrightarrow>
     calculateCompoundEffect inputs p \<noteq> [] \<and>
     calculateCompoundEffect inputs p ! 0 =
       \<lparr>month = 0, item_adCost = adCost inputs, item_revenue = 0, item_profit = 0,
        cumulativeAdCost = 0, cumulativeRevenue = 0, cumulativeProfit = 0\<rparr>"
proof -
  assume "0 \<le> months inputs"
  then have pos: "0 < iterations inputs"
    by (simp add: iterations_def)
  then have "length (calculateCompoundEffect inputs p) \<noteq> 0"
    by (simp add: length_calculateCompoundEffect)
  then have "calculateCompoundEffect inputs p \<noteq> []"
    by simp
  moreover from pos have "calculateCompoundEffect inputs p ! 0 =
       \<lparr>month = 0, item_adCost = adCost inputs, item_revenue = 0, item_profit = 0,
        cumulativeAdCost = 0, cumulativeRevenue = 0, cumulativeProfit = 0\<rparr>"
    by (simp add: nth_calculateCompoundEffect pushed_0)
  ultimately show ?thesis by simp
qed

theorem sentinel_law_witness:
  "0 \<le> months initial_inputs \<and>
   calculateCompoundEffect initial_inputs 0 \<noteq> [] \<and>
   calculateCompoundEffect initial_inputs 0 ! 0 =
     \<lparr>month = 0, item_adCost = 500000, item_revenue = 0, item_profit = 0,
      cumulativeAdCost = 0, cumulativeRevenue = 0, cumulativeProfit = 0\<rparr>"
  using sentinel_law [of initial_inputs 0]
  by (simp add: initial_inputs_def)

text \<open>
  C10 (months outside the contract). For a negative \<^verbatim>\<open>months\<close> the sequence is empty,
  without even the row of month 0; for any \<^verbatim>\<open>months\<close> that is at least 0, integer or
  not, it has \<open>\<lfloor>months\<rfloor> + 1\<close> rows.
\<close>

theorem months_out_of_contract:
  "(months inputs < 0 \<longrightarrow> calculateCompoundEffect inputs p = []) \<and>
   (0 \<le> months inputs \<longrightarrow>
      length (calculateCompoundEffect inputs p) = nat \<lfloor>months inputs\<rfloor> + 1)"
proof (intro conjI impI)
  assume "months inputs < 0"
  then have "length (calculateCompoundEffect inputs p) = 0"
    by (simp add: length_calculateCompoundEffect iterations_def)
  then show "calculateCompoundEffect inputs p = []"
    by simp
next
  assume "0 \<le> months inputs"
  then show "length (calculateCompoundEffect inputs p) = nat \<lfloor>months inputs\<rfloor> + 1"
    by (simp add: length_calculateCompoundEffect iterations_def)
qed

theorem months_out_of_contract_witness:
  "months (initial_inputs\<lparr>months := - 1\<rparr>) < 0 \<and>
   calculateCompoundEffect (initial_inputs\<lparr>months := - 1\<rparr>) 0 = [] \<and>
   0 \<le> months (initial_inputs\<lparr>months := 5 / 2\<rparr>) \<and>
   length (calculateCompoundEffect (initial_inputs\<lparr>months := 5 / 2\<rparr>) 0) = 3"
  using months_out_of_contract [of "initial_inputs\<lparr>months := - 1\<rparr>" 0]
    months_out_of_contract [of "initial_inputs\<lparr>months := 5 / 2\<rparr>" 0]
  by (simp add: initial_inputs_def)

text \<open>
  C7 (per-month rows), as amended. For every month index \<open>m \<ge> 1\<close> within the horizon and
  under every rounding, row \<open>m\<close> carries the month \<open>m\<close>, its revenue is its ad cost times
  roas, divided by 100, and its profit (before ad cost) is profitAmount -
  affiliateAmount, where profitAmount = revenue * (profitMargin/100) and
  affiliateAmount = profitAmount * (affiliateCommission/100), each operation rounded as
  the program rounds it. In exact arithmetic that profit is revenue * (profitMargin/100)
  * (1 - affiliateCommission/100). On the initial inputs of the component, on doubles,
  row 1 has ad cost 500000, profit 720000, cumulative ad cost 0 and cumulative profit
  720000, and row 2 has ad cost 720000 and revenue 2160000.
\<close>

theorem monthly_row_formulas_fl:
  "(\<forall>m. 1 \<le> m \<and> real m \<le> months inputs \<longrightarrow>
      month (calculateCompoundEffect_fl rnd inputs ! m) = m \<and>
      item_revenue (calculateCompoundEffect_fl rnd inputs ! m) =
        rnd (rnd (item_adCost (calculateCompoundEffect_fl rnd inputs ! m) * roas inputs) / 100) \<and>
      item_profit (calculateCompoundEffect_fl rnd inputs ! m) =
        rnd (rnd (item_revenue (calculateCompoundEffect_fl rnd inputs ! m)
                  * rnd (profitMargin inputs / 100))
             - rnd (rnd (item_revenue (calculateCompoundEffect_fl rnd inputs ! m)
                         * rnd (profitMargin inputs / 100))
                    * rnd (affiliateCommission inputs / 100)))) \<and>
   (\<forall>m. 1 \<le> m \<and> real m \<le> months inputs \<longrightarrow>
      item_profit (calculateCompoundEffect_fl id inputs ! m) =
        item_revenue (calculateCompoundEffect_fl id inputs ! m) * (profitMargin inputs / 100)
          * (1 - affiliateCommission inputs / 100)) \<and>
   item_adCost (calculateCompoundEffect_fl round64 initial_inputs ! 1) = 500000 \<and>
   item_profit (calculateCompoundEffect_fl round64 initial_inputs ! 1) = 720000 \<and>
   cumulativeAdCost (calculateCompoundEffect_fl round64 initial_inputs ! 1) = 0 \<and>
   cumulativeProfit (calculateCompoundEffect_fl round64 initial_inputs ! 1) = 720000 \<and>
   item_adCost (calculateCompoundEffect_fl round64 initial_inputs ! 2) = 720000 \<and>
   item_revenue (calculateCompoundEffect_fl round64 initial_inputs ! 2) = 2160000"
proof -
  have general: "\<forall>m. 1 \<le> m \<and> real m \<le> months inputs \<longrightarrow>
      month (calculateCompoundEffect_fl rnd inputs ! m) = m \<and>
      item_revenue (calculateCompoundEffect_fl rnd inputs ! m) =
        rnd (rnd (item_adCost (calculateCompoundEffect_fl rnd inputs ! m) * roas inputs) / 100) \<and>
      item_profit (calculateCompoundEffect_fl rnd inputs ! m) =
        rnd (rnd (item_revenue (calculateCompoundEffect_fl rnd inputs ! m)
                  * rnd (profitMargin inputs / 100))
             - rnd (rnd (item_revenue (calculateCompoundEffect_fl rnd inputs ! m)
                         * rnd (profitMargin inputs / 100))
                    * rnd (affiliateCommission inputs / 100)))"
    using nth_rows_fl_law [of _ inputs rnd] unfolding row_law_def by blast
  have exact: "\<forall>m. 1 \<le> m \<and> real m \<le> months inputs \<longrightarrow>
      item_profit (calculateCompoundEffect_fl id inputs ! m) =
        item_revenue (calculateCompoundEffect_fl id inputs ! m) * (profitMargin inputs / 100)
          * (1 - affiliateCommission inputs / 100)"
  proof (intro allI impI)
    fix m
    assume m: "1 \<le> m \<and> real m \<le> months inputs"
    with nth_rows_fl_law [of m inputs id]
    have "item_profit (calculateCompoundEffect_fl id inputs ! m) =
        item_revenue (calculateCompoundEffect_fl id inputs ! m) * (profitMargin inputs / 100)
        - item_revenue (calculateCompoundEffect_fl id inputs ! m) * (profitMargin inputs / 100)
            * (affiliateCommission inputs / 100)"
      unfolding row_law_def id_apply by blast
    then show "item_profit (calculateCompoundEffect_fl id inputs ! m) =
        item_revenue (calculateCompoundEffect_fl id inputs ! m) * (profitMargin inputs / 100)
          * (1 - affiliateCommission inputs / 100)"
      by (simp only: right_diff_distrib mult_1_right)
  qed
  have first: "item_adCost (calculateCompoundEffect_fl round64 initial_inputs ! 1) = 500000 \<and>
      item_profit (calculateCompoundEffect_fl round64 initial_inputs ! 1) = 720000 \<and>
      cumulativeAdCost (calculateCompoundEffect_fl round64 initial_inputs ! 1) = 0 \<and>
      cumulativeProfit (calculateCompoundEffect_fl round64 initial_inputs ! 1) = 720000"
    unfolding default_row_fl by simp
  have second: "item_adCost (calculateCompoundEffect_fl round64 initial_inputs ! 2) = 720000 \<and>
      item_revenue (calculateCompoundEffect_fl round64 initial_inputs ! 2) = 2160000"
    unfolding default_row_fl by simp
  from general exact first second show ?thesis
    by blast
qed

theorem monthly_row_formulas_fl_witness:
  "(1::nat) \<le> 5 \<and> real 5 \<le> months initial_inputs \<and>
   month (calculateCompoundEffect_fl round64 initial_inputs ! 5) = 5 \<and>
   item_revenue (calculateCompoundEffect_fl round64 initial_inputs ! 5) =
     round64 (round64 (item_adCost (calculateCompoundEffect_fl round64 initial_inputs ! 5) * 300) / 100) \<and>
   item_profit (calculateCompoundEffect_fl round64 initial_inputs ! 5) =
     round64 (round64 (item_revenue (calculateCompoundEffect_fl round64 initial_inputs ! 5)
                       * round64 (60 / 100))
              - round64 (round64 (item_revenue (calculateCompoundEffect_fl round64 initial_inputs ! 5)
                                  * round64 (60 / 100))
                         * round64 (20 / 100))) \<and>
   item_profit (calculateCompoundEffect_fl id initial_inputs ! 5) =
     item_revenue (calculateCompoundEffect_fl id initial_inputs ! 5) * (60 / 100) * (1 - 20 / 100)"
proof -
  have h: "(1::nat) \<le> 5 \<and> real 5 \<le> months initial_inputs"
    by (simp add: initial_inputs_def)
  have sel: "roas initial_inputs = 300" "profitMargin initial_inputs = 60"
    "affiliateCommission initial_inputs = 20"
    by (simp_all add: initial_inputs_def)
  from monthly_row_formulas_fl [of initial_inputs round64, THEN conjunct1, rule_format, OF h]
    monthly_row_formulas_fl [of initial_inputs round64, THEN conjunct2, THEN conjunct1,
      rule_format, OF h] h
  show ?thesis
    unfolding sel by blast
qed

text \<open>
  C7 as stated has the profit of every row equal to revenue * (profitMargin/100) *
  (1 - affiliateCommission/100). On doubles it is not: on the initial inputs the
  profit of row 5 is the double printed 3095868.2112, the product evaluated on
  doubles is the next double above it (printed 3095868.2112000003), and the exact
  product is not the profit either.
\<close>

theorem factored_profit_fails_on_doubles:
  "item_profit (calculateCompoundEffect_fl round64 initial_inputs ! 5) =
     3324163179957505 / 1073741824 \<and>
   round64 (round64 (item_revenue (calculateCompoundEffect_fl round64 initial_inputs ! 5)
                     * round64 (60 / 100))
            * round64 (1 - round64 (20 / 100))) =
     6648326359915011 / 2147483648 \<and>
   item_profit (calculateCompoundEffect_fl round64 initial_inputs ! 5) \<noteq>
     round64 (round64 (item_revenue (calculateCompoundEffect_fl round64 initial_inputs ! 5)
                       * round64 (60 / 100))
              * round64 (1 - round64 (20 / 100))) \<and>
   item_profit (calculateCompoundEffect_fl round64 initial_inputs ! 5) \<noteq>
     item_revenue (calculateCompoundEffect_fl round64 initial_inputs ! 5)
       * (60 / 100) * (1 - 20 / 100)"
  unfolding default_row_fl CompoundDataItem.select_convs
  by (simp add: round64_eval)

text \<open>
  C2 (waiver). With \<^verbatim>\<open>firstMonthFree\<close> set and \<^verbatim>\<open>months\<close> at least 1, row 1 has
  cumulative ad cost 0 and a cumulative profit equal to its own profit before ad cost.
  The skip happens at month 1 only: in every later month \<open>m \<ge> 2\<close> within the horizon,
  whatever the inputs and the ad costs reached by reinvestment, the cumulative ad cost
  grows by the month's ad cost and the cumulative profit by the month's profit less
  the month's ad cost.
\<close>

theorem waiver_law:
  "(firstMonthFree inputs \<and> 1 \<le> months inputs \<longrightarrow>
      cumulativeAdCost (calculateCompoundEffect inputs p ! 1) = 0 \<and>
      cumulativeProfit (calculateCompoundEffect inputs p ! 1) =
        item_profit (calculateCompoundEffect inputs p ! 1)) \<and>
   (\<forall>m. 2 \<le> m \<and> real m \<le> months inputs \<longrightarrow>
      cumulativeAdCost (calculateCompoundEffect inputs p ! m) =
        cumulativeAdCost (calculateCompoundEffect inputs p ! (m - 1))
        + item_adCost (calculateCompoundEffect inputs p ! m) \<and>
      cumulativeProfit (calculateCompoundEffect inputs p ! m) =
        cumulativeProfit (calculateCompoundEffect inputs p ! (m - 1))
        + (item_profit (calculateCompoundEffect inputs p ! m)
           - item_adCost (calculateCompoundEffect inputs p ! m)))"
  using row_1_waived [of inputs p] later_rows_charged [of _ inputs p]
  by blast

theorem waiver_law_witness:
  "firstMonthFree initial_inputs \<and> 1 \<le> months initial_inputs \<and>
   cumulativeAdCost (calculateCompoundEffect initial_inputs 0 ! 1) = 0 \<and>
   cumulativeProfit (calculateCompoundEffect initial_inputs 0 ! 1) =
     item_profit (calculateCompoundEffect initial_inputs 0 ! 1) \<and>
   (2::nat) \<le> 2 \<and> real 2 \<le> months initial_inputs \<and>
   cumulativeAdCost (calculateCompoundEffect initial_inputs 0 ! 2) =
     cumulativeAdCost (calculateCompoundEffect initial_inputs 0 ! (2 - 1))
     + item_adCost (calculateCompoundEffect initial_inputs 0 ! 2) \<and>
   cumulativeProfit (calculateCompoundEffect initial_inputs 0 ! 2) =
     cumulativeProfit (calculateCompoundEffect initial_inputs 0 ! (2 - 1))
     + (item_profit (calculateCompoundEffect initial_inputs 0 ! 2)
        - item_adCost (calculateCompoundEffect initial_inputs 0 ! 2))"
proof -
  have h1: "firstMonthFree initial_inputs \<and> 1 \<le> months initial_inputs"
    by (simp add: initial_inputs_def)
  have h2: "(2::nat) \<le> 2 \<and> real 2 \<le> months initial_inputs"
    by (simp add: initial_inputs_def)
  from waiver_law [of initial_inputs 0, THEN conjunct1, rule_format, OF h1]
    waiver_law [of initial_inputs 0, THEN conjunct2, rule_format, OF h2] h1 h2
  show ?thesis
    by blast
qed

text \<open>
  C1 (reinvestment), as amended. For every month index \<open>m \<ge> 1\<close> such that row \<open>m + 1\<close>
  is within the horizon (for an integer \<^verbatim>\<open>months\<close>: \<open>m < months\<close>), the ad cost of row
  \<open>m + 1\<close> is the profit of row \<open>m\<close> when that profit is positive, and the ad cost of
  the inputs otherwise; it is not negative provided the ad cost of the inputs is not
  negative.
\<close>

theorem reinvestment_law:
  "1 \<le> m \<Longrightarrow> real (Suc m) \<le> months inputs \<Longrightarrow>
     item_adCost (calculateCompoundEffect inputs p ! Suc m) =
       (if item_profit (calculateCompoundEffect inputs p ! m) > 0
        then item_profit (calculateCompoundEffect inputs p ! m) else adCost inputs) \<and>
     (0 \<le> adCost inputs \<longrightarrow> 0 \<le> item_adCost (calculateCompoundEffect inputs p ! Suc m))"
proof -
  assume m: "1 \<le> m" and g: "real (Suc m) \<le> months inputs"
  have "item_adCost (calculateCompoundEffect inputs p ! Suc m) = currentAdCost (vars_at inputs (Suc m))"
    unfolding nth_row [OF g] by (rule pushed_fields(2)) simp
  also have "\<dots> = (if item_profit (pushed inputs m (vars_at inputs m)) > 0
        then item_profit (pushed inputs m (vars_at inputs m)) else adCost inputs)"
    using m by (simp only: vars_at_currentAdCost) simp
  finally have eq: "item_adCost (calculateCompoundEffect inputs p ! Suc m) =
       (if item_profit (calculateCompoundEffect inputs p ! m) > 0
        then item_profit (calculateCompoundEffect inputs p ! m) else adCost inputs)"
    unfolding nth_row [OF guard_pred [OF g]] .
  have "0 \<le> item_adCost (calculateCompoundEffect inputs p ! Suc m)" if "0 \<le> adCost inputs"
    unfolding eq using that by simp
  with eq show ?thesis
    by blast
qed

theorem reinvestment_law_witness:
  "(1::nat) \<le> 1 \<and> real (Suc 1) \<le> months initial_inputs \<and>
   item_adCost (calculateCompoundEffect initial_inputs 0 ! Suc 1) = 720000 \<and>
   0 \<le> adCost initial_inputs \<and>
   0 \<le> item_adCost (calculateCompoundEffect initial_inputs 0 ! Suc 1)"
proof -
  have h: "real (Suc 1) \<le> months initial_inputs"
    by (simp add: initial_inputs_def)
  from reinvestment_law [OF order_refl h, of 0] h show ?thesis
    unfolding initial_row_1 by (simp add: initial_inputs_def)
qed

text \<open>
  C1 as stated has the reset never yield a negative ad cost. With the ad cost of the
  inputs at -100 (the other inputs as the component initialises
  them, two months), the profit of month 1 is not positive, and the reset gives
  month 2 the ad cost -100.
\<close>

theorem reinvestment_negative_baseline:
  "\<not> 0 < item_profit (calculateCompoundEffect (initial_inputs\<lparr>adCost := - 100, months := 2\<rparr>) 0 ! 1) \<and>
   item_adCost (calculateCompoundEffect (initial_inputs\<lparr>adCost := - 100, months := 2\<rparr>) 0 ! 2) = - 100 \<and>
   item_adCost (calculateCompoundEffect (initial_inputs\<lparr>adCost := - 100, months := 2\<rparr>) 0 ! 2) < 0"
  by (simp add: calculateCompoundEffect_def for_loop.simps loop_body_def Let_def initial_inputs_def)

text \<open>
  C8 (dead fields). Two inputs that agree on every field other than
  \<^verbatim>\<open>conversionRate\<close> and \<^verbatim>\<open>appointments\<close> give the same outcome of \<^verbatim>\<open>calculate\<close>
  (the single-period figures and the projection it triggers) and the same sequence of
  \<^verbatim>\<open>calculateCompoundEffect\<close>: no computation reads either field.
\<close>

theorem dead_fields:
  assumes "adCost a = adCost b" and "productPrice a = productPrice b" and "roas a = roas b"
    and "profitMargin a = profitMargin b" and "affiliateCommission a = affiliateCommission b"
    and "seatCpa a = seatCpa b" and "operationDays a = operationDays b"
    and "months a = months b" and "firstMonthFree a = firstMonthFree b"
  shows "calculate a = calculate b \<and> calculateCompoundEffect a p = calculateCompoundEffect b p"
proof -
  have "a = b\<lparr>conversionRate := conversionRate a, appointments := appointments a\<rparr>"
    using assms by (intro InputValues.equality) simp_all
  then obtain c d where a: "a = b\<lparr>conversionRate := c, appointments := d\<rparr>"
    by blast
  show ?thesis
    unfolding a by (simp only: calculate_dead_fields calculateCompoundEffect_dead_fields)
qed

theorem dead_fields_witness:
  "conversionRate initial_inputs \<noteq> conversionRate (initial_inputs\<lparr>conversionRate := 0, appointments := 100\<rparr>) \<and>
   appointments initial_inputs \<noteq> appointments (initial_inputs\<lparr>conversionRate := 0, appointments := 100\<rparr>) \<and>
   calculate initial_inputs = calculate (initial_inputs\<lparr>conversionRate := 0, appointments := 100\<rparr>) \<and>
   calculateCompoundEffect initial_inputs 720000 =
     calculateCompoundEffect (initial_inputs\<lparr>conversionRate := 0, appointments := 100\<rparr>) 720000"
proof -
  have "calculate initial_inputs = calculate (initial_inputs\<lparr>conversionRate := 0, appointments := 100\<rparr>) \<and>
   calculateCompoundEffect initial_inputs 720000 =
     calculateCompoundEffect (initial_inputs\<lparr>conversionRate := 0, appointments := 100\<rparr>) 720000"
    by (rule dead_fields) simp_all
  then show ?thesis
    by (simp add: initial_inputs_def)
qed

text \<open>
  C3 (single-period formulas), as amended. For every input \<^verbatim>\<open>calculate\<close> yields figures
  that satisfy the ten formulas: revenue = adCost * roas / 100; numberOfSales =
  revenue / productPrice when productPrice > 0, else 0; cpa = adCost / numberOfSales when
  numberOfSales > 0, else 0; profitAmount = revenue * profitMargin / 100; affiliateAmount
  = profitAmount * affiliateCommission / 100; profitBeforeAdCost = profitAmount -
  affiliateAmount; profit = profitBeforeAdCost when firstMonthFree, else
  profitBeforeAdCost - adCost; roasActual = revenue / adCost * 100 when adCost > 0, else
  0; seatCount = adCost / seatCpa when seatCpa > 0, else 0; dailyCost = adCost /
  operationDays when operationDays > 0, else 0. On the initial inputs of the component
  the figures are revenue 1500000, numberOfSales 5/2, cpa 200000, profitAmount 900000,
  affiliateAmount 180000, profitBeforeAdCost 720000, profit 720000, roasActual 300 and
  seatCount 25/3.
\<close>

theorem single_period_formulas:
  "(\<exists>r d. calculate inputs = Some (r, d) \<and>
      revenue r = adCost inputs * roas inputs / 100 \<and>
      numberOfSales r = (if productPrice inputs > 0 then revenue r / productPrice inputs else 0) \<and>
      cpa r = (if numberOfSales r > 0 then adCost inputs / numberOfSales r else 0) \<and>
      profitAmount r = revenue r * profitMargin inputs / 100 \<and>
      affiliateAmount r = profitAmount r * affiliateCommission inputs / 100 \<and>
      profitBeforeAdCost r = profitAmount r - affiliateAmount r \<and>
      profit r = (if firstMonthFree inputs then profitBeforeAdCost r
                  else profitBeforeAdCost r - adCost inputs) \<and>
      roasActual r = (if adCost inputs > 0 then revenue r / adCost inputs * 100 else 0) \<and>
      seatCount r = (if seatCpa inputs > 0 then adCost inputs / seatCpa inputs else 0) \<and>
      dailyCost r = (if operationDays inputs > 0 then adCost inputs / operationDays inputs else 0)) \<and>
   (\<exists>r d. calculate initial_inputs = Some (r, d) \<and>
      revenue r = 1500000 \<and> numberOfSales r = 5 / 2 \<and> cpa r = 200000 \<and>
      profitAmount r = 900000 \<and> affiliateAmount r = 180000 \<and>
      profitBeforeAdCost r = 720000 \<and> profit r = 720000 \<and> roasActual r = 300 \<and>
      seatCount r = 25 / 3)"
proof
  show "\<exists>r d. calculate inputs = Some (r, d) \<and>
      revenue r = adCost inputs * roas inputs / 100 \<and>
      numberOfSales r = (if productPrice inputs > 0 then revenue r / productPrice inputs else 0) \<and>
      cpa r = (if numberOfSales r > 0 then adCost inputs / numberOfSales r else 0) \<and>
      profitAmount r = revenue r * profitMargin inputs / 100 \<and>
      affiliateAmount r = profitAmount r * affiliateCommission inputs / 100 \<and>
      profitBeforeAdCost r = profitAmount r - affiliateAmount r \<and>
      profit r = (if firstMonthFree inputs then profitBeforeAdCost r
                  else profitBeforeAdCost r - adCost inputs) \<and>
      roasActual r = (if adCost inputs > 0 then revenue r / adCost inputs * 100 else 0) \<and>
      seatCount r = (if seatCpa inputs > 0 then adCost inputs / seatCpa inputs else 0) \<and>
      dailyCost r = (if operationDays inputs > 0 then adCost inputs / operationDays inputs else 0)"
    by (rule calculate_figures)
next
  show "\<exists>r d. calculate initial_inputs = Some (r, d) \<and>
      revenue r = 1500000 \<and> numberOfSales r = 5 / 2 \<and> cpa r = 200000 \<and>
      profitAmount r = 900000 \<and> affiliateAmount r = 180000 \<and>
      profitBeforeAdCost r = 720000 \<and> profit r = 720000 \<and> roasActual r = 300 \<and>
      seatCount r = 25 / 3"
    by (simp add: calculate_def divide_num_def initial_inputs_def)
qed

text \<open>
  C3 as stated has the seat count on the initial inputs equal to 2. It is
  500000 / 60000 = 25/3.
\<close>

theorem default_seat_count:
  "map_option (seatCount \<circ> fst) (calculate initial_inputs) = Some (25 / 3) \<and>
   map_option (seatCount \<circ> fst) (calculate initial_inputs) \<noteq> Some 2"
  by (simp add: calculate_def divide_num_def initial_inputs_def)

text \<open>
  C4 (totality and guarded divisions). For every input \<^verbatim>\<open>calculate\<close> yields its
  figures: no division meets a zero denominator. A non-positive product price gives
  numberOfSales = 0, a non-positive numberOfSales gives cpa = 0, a non-positive ad cost
  gives roasActual = 0, a non-positive seat CPA gives seatCount = 0, and a non-positive
  number of operation days gives dailyCost = 0.
\<close>

theorem division_guards:
  "\<exists>r d. calculate inputs = Some (r, d) \<and>
     (productPrice inputs \<le> 0 \<longrightarrow> numberOfSales r = 0) \<and>
     (numberOfSales r \<le> 0 \<longrightarrow> cpa r = 0) \<and>
     (adCost inputs \<le> 0 \<longrightarrow> roasActual r = 0) \<and>
     (seatCpa inputs \<le> 0 \<longrightarrow> seatCount r = 0) \<and>
     (operationDays inputs \<le> 0 \<longrightarrow> dailyCost r = 0)"
proof -
  from calculate_figures [of inputs] obtain r d where some: "calculate inputs = Some (r, d)"
    and n: "numberOfSales r = (if productPrice inputs > 0 then revenue r / productPrice inputs else 0)"
    and c: "cpa r = (if numberOfSales r > 0 then adCost inputs / numberOfSales r else 0)"
    and ra: "roasActual r = (if adCost inputs > 0 then revenue r / adCost inputs * 100 else 0)"
    and sc: "seatCount r = (if seatCpa inputs > 0 then adCost inputs / seatCpa inputs else 0)"
    and dc: "dailyCost r = (if operationDays inputs > 0 then adCost inputs / operationDays inputs else 0)"
    by blast
  have "productPrice inputs \<le> 0 \<longrightarrow> numberOfSales r = 0"
    unfolding n by simp
  moreover have "numberOfSales r \<le> 0 \<longrightarrow> cpa r = 0"
    unfolding c by simp
  moreover have "adCost inputs \<le> 0 \<longrightarrow> roasActual r = 0"
    unfolding ra by simp
  moreover have "seatCpa inputs \<le> 0 \<longrightarrow> seatCount r = 0"
    unfolding sc by simp
  moreover have "operationDays inputs \<le> 0 \<longrightarrow> dailyCost r = 0"
    unfolding dc by simp
  ultimately show ?thesis
    using some by blast
qed

theorem division_guards_witness:
  "productPrice (initial_inputs\<lparr>adCost := 0, productPrice := - 1, seatCpa := - 1, operationDays := 0\<rparr>) \<le> 0 \<and>
   adCost (initial_inputs\<lparr>adCost := 0, productPrice := - 1, seatCpa := - 1, operationDays := 0\<rparr>) \<le> 0 \<and>
   seatCpa (initial_inputs\<lparr>adCost := 0, productPrice := - 1, seatCpa := - 1, operationDays := 0\<rparr>) \<le> 0 \<and>
   operationDays (initial_inputs\<lparr>adCost := 0, productPrice := - 1, seatCpa := - 1, operationDays := 0\<rparr>) \<le> 0 \<and>
   (\<exists>r d. calculate (initial_inputs\<lparr>adCost := 0, productPrice := - 1, seatCpa := - 1, operationDays := 0\<rparr>)
            = Some (r, d) \<and>
      numberOfSales r = 0 \<and> cpa r = 0 \<and> roasActual r = 0 \<and> seatCount r = 0 \<and> dailyCost r = 0)"
  using division_guards [of "initial_inputs\<lparr>adCost := 0, productPrice := - 1, seatCpa := - 1, operationDays := 0\<rparr>"]
  by (auto simp add: initial_inputs_def)

end
